theory Spec2Isabelle
  imports Main
begin

section \<open>JavaScript primitives used by src/index.ts\<close>

text \<open>
  Strings are \<^typ>\<open>string\<close>. The two characters the decoder treats specially are
  named: the backslash (the pattern of \<^verbatim>\<open>replace('\\', '\n')\<close>) and the line feed.
\<close>

definition backslash :: char where
  "backslash = CHR 0x5C"

definition newline :: char where
  "newline = CHR 0x0A"

text \<open>
  \<^verbatim>\<open>s.slice(b, e)\<close>: a negative index counts from the end, both indices are clamped
  to the string. \<^verbatim>\<open>-0\<close> is \<^verbatim>\<open>0\<close>, so it is not negative.
\<close>

definition js_slice :: "string \<Rightarrow> int \<Rightarrow> int \<Rightarrow> string" where
  "js_slice s b e =
     (let len = int (length s);
          lo = (if b < 0 then max (len + b) 0 else min b len);
          hi = (if e < 0 then max (len + e) 0 else min e len)
      in take (nat (hi - lo)) (drop (nat lo) s))"

text \<open>\<^verbatim>\<open>s.slice(b)\<close>: to the end of the string.\<close>

definition js_slice_from :: "string \<Rightarrow> int \<Rightarrow> string" where
  "js_slice_from s b = js_slice s b (int (length s))"

text \<open>\<^verbatim>\<open>s.indexOf(c)\<close> for a one-character pattern: the first position, or -1.\<close>

fun indexOf :: "string \<Rightarrow> char \<Rightarrow> int" where
  "indexOf [] c = - 1"
| "indexOf (x # xs) c =
     (if x = c then 0 else (let i = indexOf xs c in if i = - 1 then - 1 else i + 1))"

text \<open>
  \<^verbatim>\<open>s.replace(p, r)\<close> with a string pattern of one character: only the first
  occurrence is replaced.
\<close>

fun js_replace :: "string \<Rightarrow> char \<Rightarrow> char \<Rightarrow> string" where
  "js_replace [] p r = []"
| "js_replace (c # cs) p r = (if c = p then r # cs else c # js_replace cs p r)"

text \<open>The decimal text of a non-negative integer, as \<^verbatim>\<open>inputIndex + ":0"\<close> formats it.\<close>

definition digit_char :: "nat \<Rightarrow> char" where
  "digit_char d = ''0123456789'' ! d"

fun string_of_nat :: "nat \<Rightarrow> string" where
  "string_of_nat n =
     (if n < 10 then [digit_char n] else string_of_nat (n div 10) @ [digit_char (n mod 10)])"

text \<open>
  Truthiness of an optional boolean option (\<^verbatim>\<open>if (options.dryRun)\<close>): an absent
  field is \<^verbatim>\<open>undefined\<close>, which is falsy.
\<close>

definition truthy :: "bool option \<Rightarrow> bool" where
  "truthy b = (b = Some True)"

text \<open>
  Reading a property for string concatenation: an absent property is
  \<^verbatim>\<open>undefined\<close>, which concatenates as the text \<^verbatim>\<open>undefined\<close>.
\<close>

definition to_str :: "string option \<Rightarrow> string" where
  "to_str v = (case v of None \<Rightarrow> ''undefined'' | Some s \<Rightarrow> s)"

text \<open>
  A variable used as a property name: the unset variable \<^verbatim>\<open>key\<close> (\<^verbatim>\<open>undefined\<close>)
  names the property \<^verbatim>\<open>"undefined"\<close>.
\<close>

definition prop_name :: "string option \<Rightarrow> string" where
  "prop_name k = (case k of None \<Rightarrow> ''undefined'' | Some s \<Rightarrow> s)"

section \<open>The path module\<close>

text \<open>
  \<^verbatim>\<open>getTempPath\<close> calls four functions of Node's \<^verbatim>\<open>path\<close> module, which is not
  part of the repository. They are a parameter of the model; \<open>posix\<close> below is the
  instance for POSIX paths, used to evaluate concrete calls.
\<close>

record path_module =
  extname :: "string \<Rightarrow> string"
  basename :: "string \<Rightarrow> string"
  dirname :: "string \<Rightarrow> string"
  join :: "string \<Rightarrow> string \<Rightarrow> string"

text \<open>
  \<^verbatim>\<open>path.posix.basename\<close>: trailing slashes are ignored, the result is what follows
  the last remaining slash.
\<close>

definition posix_basename :: "string \<Rightarrow> string" where
  "posix_basename p =
     rev (takeWhile (\<lambda>c. c \<noteq> CHR ''/'') (dropWhile (\<lambda>c. c = CHR ''/'') (rev p)))"

text \<open>
  \<^verbatim>\<open>path.posix.extname\<close>: from the last dot of the base name to its end; empty
  when the base name has no dot, starts with its only dot, or is \<^verbatim>\<open>..\<close>.
\<close>

definition posix_extname :: "string \<Rightarrow> string" where
  "posix_extname p =
     (let b = posix_basename p;
          e = rev (takeWhile (\<lambda>c. c \<noteq> CHR ''.'') (rev b))
      in if CHR ''.'' \<notin> set b \<or> length b = length e + 1 \<or> b = ''..'' then []
         else CHR ''.'' # e)"

text \<open>
  \<^verbatim>\<open>path.posix.dirname\<close>: scanning from the end down to index 1, skip trailing
  slashes and the last component; the path before that slash is the directory.
\<close>

definition posix_dirname :: "string \<Rightarrow> string" where
  "posix_dirname p =
     (if p = [] then ''.''
      else
        (let hasRoot = (hd p = CHR ''/'');
             r = dropWhile (\<lambda>c. c \<noteq> CHR ''/'') (dropWhile (\<lambda>c. c = CHR ''/'') (rev (tl p)))
         in if r = [] then (if hasRoot then ''/'' else ''.'')
            else if hasRoot \<and> length r = 1 then ''//''
            else take (length r) p))"

fun split_on :: "char \<Rightarrow> string \<Rightarrow> string list" where
  "split_on c [] = [[]]"
| "split_on c (x # xs) =
     (if x = c then [] # split_on c xs
      else (case split_on c xs of [] \<Rightarrow> [[x]] | s # ss \<Rightarrow> (x # s) # ss))"

fun join_segments :: "string list \<Rightarrow> string" where
  "join_segments [] = []"
| "join_segments [s] = s"
| "join_segments (s # t # ss) = s @ ''/'' @ join_segments (t # ss)"

text \<open>
  One segment of \<^verbatim>\<open>normalizeString\<close>: empty and \<^verbatim>\<open>.\<close> segments vanish,
  \<^verbatim>\<open>..\<close> removes the segment before it (or stays, above the root of a relative path).
\<close>

definition normalize_step :: "bool \<Rightarrow> string list \<Rightarrow> string \<Rightarrow> string list" where
  "normalize_step allowAboveRoot res seg =
     (if seg = [] \<or> seg = ''.'' then res
      else if seg = ''..'' then
        (if res \<noteq> [] \<and> last res \<noteq> ''..'' then butlast res
         else if allowAboveRoot then res @ [''..''] else res)
      else res @ [seg])"

definition posix_normalize :: "string \<Rightarrow> string" where
  "posix_normalize p =
     (if p = [] then ''.''
      else
        (let isAbsolute = (hd p = CHR ''/'');
             trailingSeparator = (last p = CHR ''/'');
             q = join_segments
                   (foldl (normalize_step (\<not> isAbsolute)) [] (split_on CHR ''/'' p))
         in if q = [] then (if isAbsolute then ''/'' else if trailingSeparator then ''./'' else ''.'')
            else (if isAbsolute then ''/'' else []) @ q @ (if trailingSeparator then ''/'' else [])))"

text \<open>\<^verbatim>\<open>path.posix.join\<close> of two segments: the non-empty ones, joined and normalised.\<close>

definition posix_join :: "string \<Rightarrow> string \<Rightarrow> string" where
  "posix_join a b =
     (let joined = (if a = [] then b else if b = [] then a else a @ ''/'' @ b)
      in if joined = [] then ''.'' else posix_normalize joined)"

definition posix :: path_module where
  "posix = \<lparr>extname = posix_extname, basename = posix_basename,
             dirname = posix_dirname, join = posix_join\<rparr>"

section \<open>Data model\<close>

text \<open>
  \<^verbatim>\<open>OptionsInterface\<close>, with \<^verbatim>\<open>coverPath\<close>, which \<^verbatim>\<open>getReadArgs\<close> reads. Every
  field is optional: \<open>None\<close> is an absent field. The callers' shorthand of passing the
  callback in place of the options, and an array in place of the options, are
  excluded by the declared parameter type and not modelled.
\<close>

record options =
  attachments :: "string list option"
  id3v1 :: "bool option"
  id3v2_3 :: "bool option"
  dryRun :: "bool option"
  coverPath :: "string option"

text \<open>
  The metadata object handed to \<^verbatim>\<open>write\<close>: its own properties in the order
  \<^verbatim>\<open>Object.keys\<close> enumerates them.
\<close>

type_synonym metadata = "(string \<times> string) list"

text \<open>\<^verbatim>\<open>data[name]\<close> inside a string concatenation.\<close>

definition get_prop :: "metadata \<Rightarrow> string \<Rightarrow> string" where
  "get_prop data name = to_str (map_of data name)"

text \<open>
  The object literal \<^verbatim>\<open>rt\<close> of type \<^verbatim>\<open>MetadataInterface\<close> that \<^verbatim>\<open>read\<close> and
  \<^verbatim>\<open>write\<close> build: \<open>None\<close> is \<^verbatim>\<open>null\<close>.
\<close>

record metadata_record =
  album :: "string option"
  artist :: "string option"
  date :: "string option"
  disk :: "string option"
  label :: "string option"
  title :: "string option"
  track :: "string option"

text \<open>\<^verbatim>\<open>x || null\<close> for a property that is absent or a string: the empty string is falsy.\<close>

definition or_null :: "string option \<Rightarrow> string option" where
  "or_null v = (case v of None \<Rightarrow> None | Some s \<Rightarrow> (if s = [] then None else Some s))"

definition rt_of :: "(string \<Rightarrow> string option) \<Rightarrow> metadata_record" where
  "rt_of obj =
     \<lparr>album = or_null (obj ''album''), artist = or_null (obj ''artist''),
      date = or_null (obj ''date''), disk = or_null (obj ''disk''),
      label = or_null (obj ''label''), title = or_null (obj ''title''),
      track = or_null (obj ''track'')\<rparr>"

text \<open>
  The stream that \<^verbatim>\<open>through()\<close> has just created carries none of the tag
  properties, and nothing in \<^verbatim>\<open>read\<close> or \<^verbatim>\<open>write\<close> assigns one.
\<close>

definition through_props :: "string \<Rightarrow> string option" where
  "through_props name = None"

section \<open>The codec\<close>

definition escapeini :: "string \<Rightarrow> string" where
  "escapeini data = data"

definition unescapeini :: "string \<Rightarrow> string" where
  "unescapeini data = data"

definition isNotComment :: "string \<Rightarrow> bool" where
  "isNotComment data = (js_slice data 0 1 \<noteq> '';'')"

text \<open>An exception that escapes a listener: nothing in the source catches one.\<close>

datatype js_exception = TypeError

text \<open>
  \<^verbatim>\<open>stream.data\<close> is the plain object \<^verbatim>\<open>{}\<close>, used as a dictionary. Its own
  properties hold strings. The name \<^verbatim>\<open>__proto__\<close> is not an own property but the
  accessor inherited from \<^verbatim>\<open>Object.prototype\<close>: reading it gives that prototype
  object, and assigning a string to it is ignored by the setter.
\<close>

datatype js_value = Undefined | Str string | ObjectPrototype

definition get_property :: "(string \<Rightarrow> string option) \<Rightarrow> string \<Rightarrow> js_value" where
  "get_property obj name =
     (if name = ''__proto__'' then ObjectPrototype
      else (case obj name of None \<Rightarrow> Undefined | Some s \<Rightarrow> Str s))"

definition set_property :: "(string \<Rightarrow> string option) \<Rightarrow> string \<Rightarrow> string
    \<Rightarrow> (string \<Rightarrow> string option)" where
  "set_property obj name v = (if name = ''__proto__'' then obj else obj(name \<mapsto> v))"

text \<open>The left operand of \<^verbatim>\<open>+=\<close> with a string on the right, as a string.\<close>

definition concat_operand :: "js_value \<Rightarrow> string" where
  "concat_operand v =
     (case v of Undefined \<Rightarrow> ''undefined'' | Str s \<Rightarrow> s | ObjectPrototype \<Rightarrow> ''[object Object]'')"

text \<open>
  The state of one \<^verbatim>\<open>parseini\<close> stream: the own properties of \<^verbatim>\<open>stream.data\<close>
  and the variable \<^verbatim>\<open>key\<close>, which is \<^verbatim>\<open>undefined\<close> (\<open>None\<close>) until a line
  with \<^verbatim>\<open>=\<close> has been parsed.
\<close>

record ini_state =
  stream_data :: "string \<Rightarrow> string option"
  key :: "string option"

text \<open>
  \<^verbatim>\<open>parseLine\<close>. In the continuation branch the second statement calls
  \<^verbatim>\<open>.replace\<close> on what \<^verbatim>\<open>stream.data[key]\<close> then holds: a string has the
  method, \<^verbatim>\<open>Object.prototype\<close> and \<^verbatim>\<open>undefined\<close> have not, and the call throws.
\<close>

definition parseLine :: "ini_state \<Rightarrow> string \<Rightarrow> js_exception + ini_state" where
  "parseLine st line =
     (let data = unescapeini line;
          index = indexOf data CHR ''=''
      in if index = - 1 then
           (let k = prop_name (key st);
                appended = concat_operand (get_property (stream_data st) k)
                             @ js_slice_from data (index + 1);
                obj = set_property (stream_data st) k appended
            in case get_property obj k of
                 Str s \<Rightarrow>
                   Inr (st\<lparr>stream_data := set_property obj k (js_replace s backslash newline)\<rparr>)
               | Undefined \<Rightarrow> Inl TypeError
               | ObjectPrototype \<Rightarrow> Inl TypeError)
         else
           (let k = js_slice data 0 index
            in Inr (st\<lparr>key := Some k,
                       stream_data :=
                         set_property (stream_data st) k (js_slice_from data (index + 1))\<rparr>)))"

definition ini_init :: ini_state where
  "ini_init = \<lparr>stream_data = Map.empty, key = None\<rparr>"

text \<open>\<^verbatim>\<open>parseLine\<close> on each line in turn; an exception ends the run.\<close>

fun parse_lines :: "ini_state \<Rightarrow> string list \<Rightarrow> js_exception + ini_state" where
  "parse_lines st [] = Inr st"
| "parse_lines st (l # ls) =
     (case parseLine st l of Inl exn \<Rightarrow> Inl exn | Inr st' \<Rightarrow> parse_lines st' ls)"

text \<open>
  The pipeline \<^verbatim>\<open>combine(split(), filter(Boolean), filter(isNotComment),
  through(parseLine))\<close>, run on the lines that \<^verbatim>\<open>split()\<close> emits: empty lines are
  dropped, then comment lines, and \<^verbatim>\<open>parseLine\<close> sees the rest in order.
\<close>

definition parseini_state :: "string list \<Rightarrow> js_exception + ini_state" where
  "parseini_state lines =
     parse_lines ini_init (filter isNotComment (filter (\<lambda>l. l \<noteq> []) lines))"

text \<open>The object \<^verbatim>\<open>stream.data\<close> after the lines, or the exception thrown on the way.\<close>

definition parseini :: "string list \<Rightarrow> js_exception + (string \<Rightarrow> string option)" where
  "parseini lines =
     (case parseini_state lines of Inl exn \<Rightarrow> Inl exn | Inr st \<Rightarrow> Inr (stream_data st))"

text \<open>One own property of the decoded object, and the variable \<^verbatim>\<open>key\<close>, after the lines.\<close>

definition decoded_value :: "string list \<Rightarrow> string \<Rightarrow> js_exception + string option" where
  "decoded_value lines name =
     (case parseini lines of Inl exn \<Rightarrow> Inl exn | Inr obj \<Rightarrow> Inr (obj name))"

definition decoded_key :: "string list \<Rightarrow> js_exception + string option" where
  "decoded_key lines =
     (case parseini_state lines of Inl exn \<Rightarrow> Inl exn | Inr st \<Rightarrow> Inr (key st))"


section \<open>The argument builder\<close>

definition getTempPath :: "path_module \<Rightarrow> string \<Rightarrow> string" where
  "getTempPath P src =
     (let ext = extname P src;
          base = js_slice (basename P src) 0 (- int (length ext));
          newName = base @ ''.ffmetadata'' @ ext;
          dir = dirname P src
      in join P dir newName)"

definition getReadArgs :: "string \<Rightarrow> options \<Rightarrow> string list" where
  "getReadArgs src options =
     (case coverPath options of
        Some cover \<Rightarrow> [''-i'', src, cover]
      | None \<Rightarrow> [''-i'', src, ''-f'', ''ffmetadata'', ''pipe:1''])"

definition getAttachments :: "options \<Rightarrow> string list" where
  "getAttachments options = (case attachments options of None \<Rightarrow> [] | Some a \<Rightarrow> a)"

text \<open>The body of the \<^verbatim>\<open>forEach\<close> over the attachments, on the pair (inputs, maps).\<close>

definition attach :: "string list \<times> string list \<Rightarrow> string \<Rightarrow> string list \<times> string list" where
  "attach st el =
     (case st of (inputs, maps) \<Rightarrow>
        (let inputIndex = length inputs div 2
         in (inputs @ [''-i'', el], maps @ [''-map'', string_of_nat inputIndex @ '':0''])))"

text \<open>The body of the \<^verbatim>\<open>forEach\<close> over \<^verbatim>\<open>Object.keys(data)\<close>.\<close>

definition push_metadata :: "metadata \<Rightarrow> string list \<Rightarrow> string \<Rightarrow> string list" where
  "push_metadata data args name =
     args @ [''-metadata'', escapeini name @ ''='' @ escapeini (get_prop data name)]"

definition getWriteArgs :: "string \<Rightarrow> string \<Rightarrow> metadata \<Rightarrow> options \<Rightarrow> string list" where
  "getWriteArgs src dst data options =
     (case foldl attach ([''-i'', src], [''-map'', ''0:0'']) (getAttachments options) of
        (inputs, maps) \<Rightarrow>
          (let args0 = [''-y''] @ inputs @ maps @ [''-codec'', ''copy''];
               args1 = (if truthy (id3v1 options) then args0 @ [''-write_id3v1'', ''1''] else args0);
               args2 = (if truthy (id3v2_3 options) then args1 @ [''-id3v2_version'', ''3''] else args1);
               args3 = foldl (push_metadata data) args2 (map fst data)
           in args3 @ [dst]))"

section \<open>Running the external process\<close>

text \<open>
  Error values: \<open>Error m\<close> is \<^verbatim>\<open>new Error(m)\<close>, built by the source from the captured
  standard error; \<open>SystemError m\<close> is an error object handed over by Node (a failed
  spawn, a failed rename or unlink).
\<close>

datatype js_error = Error string | SystemError string

text \<open>What the child process reports: its events, in the order they fire.\<close>

datatype proc_event =
    ProcError js_error
  | ProcStdout string
  | ProcClose "int option"

fun is_close :: "proc_event \<Rightarrow> bool" where
  "is_close (ProcClose code) = True"
| "is_close ev = False"

text \<open>
  What a call does to the world outside it. \<open>Uncaught\<close> is an exception that escapes
  a listener: the source catches none, so it reaches the host process.
\<close>

datatype effect =
    Spawn "string list"
  | Rename string string
  | Unlink string
  | Uncaught js_exception

fun is_uncaught :: "effect \<Rightarrow> bool" where
  "is_uncaught (Uncaught exn) = True"
| "is_uncaught eff = False"

text \<open>What is emitted on the stream created by \<^verbatim>\<open>through()\<close>.\<close>

datatype stream_event =
    EmitData string
  | EmitError js_error
  | EmitEnd
  | EmitMetadata "string \<Rightarrow> string option"

text \<open>Recognisers for the kinds of stream event.\<close>

fun is_error :: "stream_event \<Rightarrow> bool" where
  "is_error (EmitError err) = True"
| "is_error ev = False"

fun is_end :: "stream_event \<Rightarrow> bool" where
  "is_end EmitEnd = True"
| "is_end ev = False"

fun is_metadata :: "stream_event \<Rightarrow> bool" where
  "is_metadata (EmitMetadata d) = True"
| "is_metadata ev = False"

text \<open>
  The answers of the world to one call: the chunks written to the concat stream that
  captures standard error (its array \<^verbatim>\<open>body\<close>), the lines of standard output, and
  the errors (if any) with which \<^verbatim>\<open>fs.rename\<close> and \<^verbatim>\<open>fs.unlink\<close> call back.
\<close>

record world =
  stderr_body :: "string list"
  stdout_lines :: "string list"
  rename_result :: "js_error option"
  unlink_result :: "js_error option"

text \<open>
  \<^verbatim>\<open>error.getBody()\<close> of the concat-stream module, which is not part of the
  repository: the captured chunks joined, and \<^verbatim>\<open>undefined\<close> (\<open>None\<close>) when nothing
  was written.
\<close>

definition getBody :: "world \<Rightarrow> string option" where
  "getBody W = (if stderr_body W = [] then None else Some (concat (stderr_body W)))"

text \<open>
  \<^verbatim>\<open>new Error(error.getBody().toString())\<close>: the method call on \<^verbatim>\<open>undefined\<close>
  throws before any error object is built.
\<close>

definition stderr_error :: "world \<Rightarrow> js_exception + js_error" where
  "stderr_error W = (case getBody W of None \<Rightarrow> Inl TypeError | Some body \<Rightarrow> Inr (Error body))"

record run_state =
  effects :: "effect list"
  emitted :: "stream_event list"

text \<open>After an uncaught exception nothing more of the run is modelled.\<close>

definition crashed :: "run_state \<Rightarrow> bool" where
  "crashed st = list_ex is_uncaught (effects st)"

datatype call_result =
    ReturnedArgs "string list"
  | ReturnedRecord metadata_record

text \<open>
  \<^verbatim>\<open>handleError\<close>: the callback of \<^verbatim>\<open>fs.unlink\<close> takes no argument, so the outcome
  of the removal is never looked at.
\<close>

definition handleError :: "world \<Rightarrow> string \<Rightarrow> js_error \<Rightarrow> run_state \<Rightarrow> run_state" where
  "handleError W dst err st =
     st\<lparr>effects := effects st @ [Unlink dst], emitted := emitted st @ [EmitError err]\<rparr>"

definition finish :: "world \<Rightarrow> string \<Rightarrow> string \<Rightarrow> run_state \<Rightarrow> run_state" where
  "finish W src dst st =
     (let st1 = st\<lparr>effects := effects st @ [Rename dst src]\<rparr>
      in case rename_result W of
           Some err \<Rightarrow> handleError W dst err st1
         | None \<Rightarrow> st1\<lparr>emitted := emitted st1 @ [EmitEnd]\<rparr>)"

text \<open>
  The three listeners \<^verbatim>\<open>write\<close> registers on the child process. In the close
  listener the argument of \<^verbatim>\<open>handleError\<close> is evaluated first: when it throws,
  \<^verbatim>\<open>handleError\<close> is not called.
\<close>

definition write_event :: "world \<Rightarrow> string \<Rightarrow> string \<Rightarrow> run_state \<Rightarrow> proc_event \<Rightarrow> run_state" where
  "write_event W src dst st ev =
     (if crashed st then st
      else
        (case ev of
           ProcError err \<Rightarrow> st\<lparr>emitted := emitted st @ [EmitError err]\<rparr>
         | ProcStdout chunk \<Rightarrow> st\<lparr>emitted := emitted st @ [EmitData chunk]\<rparr>
         | ProcClose code \<Rightarrow>
             (if code = Some 0 then finish W src dst st
              else
                (case stderr_error W of
                   Inl exn \<Rightarrow> st\<lparr>effects := effects st @ [Uncaught exn]\<rparr>
                 | Inr err \<Rightarrow> handleError W dst err st))))"

definition write_fn :: "path_module \<Rightarrow> string \<Rightarrow> metadata \<Rightarrow> options \<Rightarrow> world \<Rightarrow> proc_event list
    \<Rightarrow> call_result \<times> run_state" where
  "write_fn P src data options W events =
     (let dst = getTempPath P src;
          args = getWriteArgs src dst data options
      in if truthy (dryRun options) then (ReturnedArgs args, \<lparr>effects = [], emitted = []\<rparr>)
         else (ReturnedRecord (rt_of through_props),
               foldl (write_event W src dst) \<lparr>effects = [Spawn args], emitted = []\<rparr> events))"

text \<open>
  The calls of the caller's callback, when one is given: \<^verbatim>\<open>write\<close> listens on the stream for
  \<^verbatim>\<open>"metadata"\<close> and \<^verbatim>\<open>"error"\<close>; nothing listens for \<^verbatim>\<open>"end"\<close> or \<^verbatim>\<open>"data"\<close>.
\<close>

datatype callback_call =
    CallbackError js_error
  | CallbackData metadata_record

definition write_listener :: "stream_event \<Rightarrow> callback_call list" where
  "write_listener ev =
     (case ev of
        EmitMetadata d \<Rightarrow> [CallbackData (rt_of d)]
      | EmitError err \<Rightarrow> [CallbackError err]
      | EmitData chunk \<Rightarrow> []
      | EmitEnd \<Rightarrow> [])"

definition write_callbacks :: "run_state \<Rightarrow> callback_call list" where
  "write_callbacks st = concat (map write_listener (emitted st))"

text \<open>
  The listeners \<^verbatim>\<open>read\<close> registers: standard output is piped into the decoder and
  not onto the stream, so an exception of the decoder escapes before the process
  closes; on close with code 0 the decoded object is emitted as \<^verbatim>\<open>"metadata"\<close>.
\<close>

definition read_event :: "world \<Rightarrow> run_state \<Rightarrow> proc_event \<Rightarrow> run_state" where
  "read_event W st ev =
     (if crashed st then st
      else
        (case ev of
           ProcError err \<Rightarrow> st\<lparr>emitted := emitted st @ [EmitError err]\<rparr>
         | ProcStdout chunk \<Rightarrow> st
         | ProcClose code \<Rightarrow>
             (case parseini (stdout_lines W) of
                Inl exn \<Rightarrow> st\<lparr>effects := effects st @ [Uncaught exn]\<rparr>
              | Inr obj \<Rightarrow>
                  (if code = Some 0 then st\<lparr>emitted := emitted st @ [EmitMetadata obj]\<rparr>
                   else
                     (case stderr_error W of
                        Inl exn \<Rightarrow> st\<lparr>effects := effects st @ [Uncaught exn]\<rparr>
                      | Inr err \<Rightarrow> st\<lparr>emitted := emitted st @ [EmitError err]\<rparr>)))))"

definition read_fn :: "string \<Rightarrow> options \<Rightarrow> world \<Rightarrow> proc_event list \<Rightarrow> call_result \<times> run_state" where
  "read_fn src options W events =
     (let args = getReadArgs src options
      in if truthy (dryRun options) then (ReturnedArgs args, \<lparr>effects = [], emitted = []\<rparr>)
         else (ReturnedRecord (rt_of through_props),
               foldl (read_event W) \<lparr>effects = [Spawn args], emitted = []\<rparr> events))"

section \<open>The specification's wording, for comparison with the code\<close>

text \<open>
  The definitions of this section are not taken from the source: each one writes down
  what a sentence of the specification says, so that it can be compared with the
  function of the source it describes.
\<close>

text \<open>
  The write arguments in the order the specification lists them: the primary input
  with its mapping directive, then, for each attachment, its input and its mapping
  directive.
\<close>

definition claimed_attachment_directives :: "string list \<Rightarrow> string list" where
  "claimed_attachment_directives atts =
     concat (map (\<lambda>(k, el). [''-i'', el, ''-map'', string_of_nat k @ '':0''])
               (zip [1 ..< Suc (length atts)] atts))"

definition claimed_write_args :: "string \<Rightarrow> string \<Rightarrow> metadata \<Rightarrow> options \<Rightarrow> string list" where
  "claimed_write_args src dst data options =
     [''-y'', ''-i'', src, ''-map'', ''0:0''] @
     claimed_attachment_directives (getAttachments options) @
     [''-codec'', ''copy''] @
     (if truthy (id3v1 options) then [''-write_id3v1'', ''1''] else []) @
     (if truthy (id3v2_3 options) then [''-id3v2_version'', ''3''] else []) @
     concat (map (\<lambda>(k, v). [''-metadata'', escapeini k @ ''='' @ escapeini v]) data) @
     [dst]"

text \<open>
  The temp path as the specification describes it: the directory of the source joined
  with the stem of its file name (the base name without the extension), the infix and
  the extension.
\<close>

definition stem :: "path_module \<Rightarrow> string \<Rightarrow> string" where
  "stem P src = take (length (basename P src) - length (extname P src)) (basename P src)"

definition claimed_temp_path :: "path_module \<Rightarrow> string \<Rightarrow> string" where
  "claimed_temp_path P src = join P (dirname P src) (stem P src @ ''.ffmetadata'' @ extname P src)"


text \<open>
  The two terminal outcomes of the write pipeline. Committed: the temp path was
  renamed over the source and the end of the stream was signalled. Rolled back: the
  temp path was removed and an error was signalled.
\<close>

definition committed :: "string \<Rightarrow> string \<Rightarrow> run_state \<Rightarrow> bool" where
  "committed src dst st = (Rename dst src \<in> set (effects st) \<and> list_ex is_end (emitted st))"

definition rolled_back :: "string \<Rightarrow> run_state \<Rightarrow> bool" where
  "rolled_back dst st = (Unlink dst \<in> set (effects st) \<and> list_ex is_error (emitted st))"

section \<open>The argument builder: properties\<close>

declare string_of_nat.simps [simp del]

lemma foldl_attach:
  "foldl attach (ins, maps) atts =
     (ins @ concat (map (\<lambda>el. [''-i'', el]) atts),
      maps @ concat (map (\<lambda>k. [''-map'', string_of_nat k @ '':0''])
                      [length ins div 2 ..< length ins div 2 + length atts]))"
proof (induction atts arbitrary: ins maps)
  case Nil
  show ?case by simp
next
  case (Cons a atts)
  have step: "attach (ins, maps) a =
      (ins @ [''-i'', a], maps @ [''-map'', string_of_nat (length ins div 2) @ '':0''])"
    by (simp add: attach_def)
  have len: "length (ins @ [''-i'', a]) div 2 = Suc (length ins div 2)"
    by simp
  have "[length ins div 2 ..< length ins div 2 + Suc (length atts)] =
      (length ins div 2) # [Suc (length ins div 2) ..< length ins div 2 + Suc (length atts)]"
    by (rule upt_conv_Cons) simp
  then have upt: "[length ins div 2 ..< length ins div 2 + length (a # atts)] =
      (length ins div 2) # [Suc (length ins div 2) ..< Suc (length ins div 2) + length atts]"
    by simp
  show ?case
    unfolding foldl_Cons step Cons.IH len upt by simp
qed

lemma foldl_push_metadata:
  "foldl (push_metadata data) args names =
     args @ concat (map (\<lambda>name. [''-metadata'', escapeini name @ ''='' @ escapeini (get_prop data name)]) names)"
  by (induction names arbitrary: args) (simp_all add: push_metadata_def)

lemma get_prop_distinct:
  assumes "distinct (map fst data)" and "(k, v) \<in> set data"
  shows "get_prop data k = v"
  using assms by (simp add: get_prop_def to_str_def)

lemma metadata_directives_distinct:
  assumes "distinct (map fst data)"
  shows "concat (map (\<lambda>name. [''-metadata'', escapeini name @ ''='' @ escapeini (get_prop data name)]) (map fst data))
       = concat (map (\<lambda>(k, v). [''-metadata'', escapeini k @ ''='' @ escapeini v]) data)"
proof -
  have "map (\<lambda>name. [''-metadata'', escapeini name @ ''='' @ escapeini (get_prop data name)]) (map fst data)
      = map (\<lambda>(k, v). [''-metadata'', escapeini k @ ''='' @ escapeini v]) data"
    using get_prop_distinct[OF assms] by (auto simp: map_eq_conv)
  then show ?thesis by (simp only:)
qed

text \<open>
  The argument vector in closed form: the overwrite flag, all inputs, all mapping
  directives, the codec directive, the two optional tag directives, the metadata
  directives, the destination.
\<close>

lemma getWriteArgs_closed:
  "getWriteArgs src dst data options =
     [''-y''] @
     ([''-i'', src] @ concat (map (\<lambda>el. [''-i'', el]) (getAttachments options))) @
     ([''-map'', ''0:0''] @ concat (map (\<lambda>k. [''-map'', string_of_nat k @ '':0''])
                                     [1 ..< Suc (length (getAttachments options))])) @
     [''-codec'', ''copy''] @
     (if truthy (id3v1 options) then [''-write_id3v1'', ''1''] else []) @
     (if truthy (id3v2_3 options) then [''-id3v2_version'', ''3''] else []) @
     concat (map (\<lambda>name. [''-metadata'', escapeini name @ ''='' @ escapeini (get_prop data name)]) (map fst data)) @
     [dst]"
  by (simp add: getWriteArgs_def foldl_attach foldl_push_metadata Let_def)

lemma length_concat_pairs: "length (concat (map (\<lambda>x. [a, f x]) xs)) = 2 * length xs"
  by (induction xs) simp_all

text \<open>
  C2. With N attachments in \<^verbatim>\<open>options.attachments\<close>, the argument vector starts
  with the overwrite flag and the primary input, followed by one input directive per
  attachment in the order supplied, the primary mapping directive, and the N mapping
  directives \<^verbatim>\<open>-map 1:0\<close> to \<^verbatim>\<open>-map N:0\<close> in ascending order; with no
  \<^verbatim>\<open>attachments\<close> field there is no additional input and no additional mapping.
\<close>

theorem attachment_directives:
  "(attachments options = Some atts \<longrightarrow>
      take (5 + 4 * length atts) (getWriteArgs src dst data options) =
        [''-y'', ''-i'', src] @
        concat (map (\<lambda>el. [''-i'', el]) atts) @
        [''-map'', ''0:0''] @
        concat (map (\<lambda>k. [''-map'', string_of_nat k @ '':0'']) [1 ..< Suc (length atts)]) \<and>
      drop (5 + 4 * length atts) (getWriteArgs src dst data options) =
        drop 5 (getWriteArgs src dst data (options\<lparr>attachments := None\<rparr>))) \<and>
   (attachments options = None \<longrightarrow>
      take 5 (getWriteArgs src dst data options) = [''-y'', ''-i'', src, ''-map'', ''0:0''])"
proof (intro conjI impI)
  assume a: "attachments options = Some atts"
  let ?ins = "concat (map (\<lambda>el. [''-i'', el]) atts)"
  let ?maps = "concat (map (\<lambda>k. [''-map'', string_of_nat k @ '':0'']) [1 ..< Suc (length atts)])"
  let ?front = "[''-y'', ''-i'', src] @ ?ins @ [''-map'', ''0:0''] @ ?maps"
  let ?rest = "[''-codec'', ''copy''] @
     (if truthy (id3v1 options) then [''-write_id3v1'', ''1''] else []) @
     (if truthy (id3v2_3 options) then [''-id3v2_version'', ''3''] else []) @
     concat (map (\<lambda>name. [''-metadata'', escapeini name @ ''='' @ escapeini (get_prop data name)])
               (map fst data)) @
     [dst]"
  have l1: "length ?ins = 2 * length atts"
    by (rule length_concat_pairs)
  have l2: "length ?maps = 2 * length atts"
    by (simp add: length_concat_pairs del: upt_Suc)
  have len: "length ?front = 5 + 4 * length atts"
    using l1 l2 by simp
  have split: "getWriteArgs src dst data options = ?front @ ?rest"
    using a by (simp add: getWriteArgs_closed getAttachments_def)
  have none: "getWriteArgs src dst data (options\<lparr>attachments := None\<rparr>) =
      [''-y'', ''-i'', src, ''-map'', ''0:0''] @ ?rest"
    by (simp add: getWriteArgs_closed getAttachments_def)
  have "take (length ?front) (?front @ ?rest) = ?front"
    by simp
  then show "take (5 + 4 * length atts) (getWriteArgs src dst data options) = ?front"
    unfolding split len .
  have "drop (length ?front) (?front @ ?rest) = ?rest"
    by simp
  then have "drop (5 + 4 * length atts) (getWriteArgs src dst data options) = ?rest"
    unfolding split len .
  then show "drop (5 + 4 * length atts) (getWriteArgs src dst data options) =
      drop 5 (getWriteArgs src dst data (options\<lparr>attachments := None\<rparr>))"
    unfolding none by simp
next
  assume "attachments options = None"
  then show "take 5 (getWriteArgs src dst data options) = [''-y'', ''-i'', src, ''-map'', ''0:0'']"
    by (simp add: getWriteArgs_closed getAttachments_def)
qed

text \<open>Two attachments: inputs 1 and 2 are mapped in the order the attachments were given.\<close>

theorem attachment_directives_witness:
  "attachments \<lparr>attachments = Some [''cover.jpg'', ''back.png''], id3v1 = None, id3v2_3 = None,
                 dryRun = None, coverPath = None\<rparr> = Some [''cover.jpg'', ''back.png''] \<and>
   take 13 (getWriteArgs ''song.mp3'' ''song.ffmetadata.mp3'' [(''title'', ''Test'')]
              \<lparr>attachments = Some [''cover.jpg'', ''back.png''], id3v1 = None, id3v2_3 = None,
               dryRun = None, coverPath = None\<rparr>) =
     [''-y'', ''-i'', ''song.mp3'', ''-i'', ''cover.jpg'', ''-i'', ''back.png'',
      ''-map'', ''0:0'', ''-map'', ''1:0'', ''-map'', ''2:0''] \<and>
   take 5 (getWriteArgs ''song.mp3'' ''song.ffmetadata.mp3'' [(''title'', ''Test'')]
              \<lparr>attachments = None, id3v1 = None, id3v2_3 = None,
               dryRun = None, coverPath = None\<rparr>) =
     [''-y'', ''-i'', ''song.mp3'', ''-map'', ''0:0'']"
proof -
  let ?opts = "\<lparr>attachments = Some [''cover.jpg'', ''back.png''], id3v1 = None, id3v2_3 = None,
                 dryRun = None, coverPath = None\<rparr>"
  let ?none = "\<lparr>attachments = None, id3v1 = None, id3v2_3 = None,
                 dryRun = None, coverPath = None\<rparr>"
  have h: "attachments ?opts = Some [''cover.jpg'', ''back.png'']"
    by simp
  have m: "concat (map (\<lambda>k. [''-map'', string_of_nat k @ '':0'']) [Suc 0 ..< Suc (Suc (Suc 0))]) =
      [''-map'', ''1:0'', ''-map'', ''2:0'']"
    by code_simp
  from attachment_directives[of ?opts "[''cover.jpg'', ''back.png'']" "''song.mp3''"
      "''song.ffmetadata.mp3''" "[(''title'', ''Test'')]"] h
  have "take 13 (getWriteArgs ''song.mp3'' ''song.ffmetadata.mp3'' [(''title'', ''Test'')] ?opts) =
     [''-y'', ''-i'', ''song.mp3'', ''-i'', ''cover.jpg'', ''-i'', ''back.png'',
      ''-map'', ''0:0'', ''-map'', ''1:0'', ''-map'', ''2:0'']"
    by (simp add: m del: upt_Suc)
  moreover from attachment_directives[of ?none "[]" "''song.mp3''"
      "''song.ffmetadata.mp3''" "[(''title'', ''Test'')]"]
  have "take 5 (getWriteArgs ''song.mp3'' ''song.ffmetadata.mp3'' [(''title'', ''Test'')] ?none) =
     [''-y'', ''-i'', ''song.mp3'', ''-map'', ''0:0'']"
    by simp
  ultimately show ?thesis using h by blast
qed

text \<open>The index is formatted in decimal, also beyond one digit.\<close>

lemma string_of_nat_examples:
  "string_of_nat 0 = ''0'' \<and> string_of_nat 9 = ''9'' \<and> string_of_nat 10 = ''10'' \<and>
   string_of_nat 12 = ''12'' \<and> string_of_nat 120 = ''120''"
  by code_simp

subsection \<open>The temp path\<close>

lemma js_slice_drop_suffix:
  "0 < n \<Longrightarrow> js_slice s 0 (- int n) = take (length s - n) s"
  by (simp add: js_slice_def Let_def max_def nat_diff_distrib')

lemma js_slice_minus_zero: "js_slice s 0 (- int 0) = []"
  by (simp add: js_slice_def Let_def)

lemma getTempPath_with_extension:
  assumes "extname P src \<noteq> []"
  shows "getTempPath P src = claimed_temp_path P src"
  using assms
  by (simp add: getTempPath_def claimed_temp_path_def stem_def Let_def js_slice_drop_suffix)

text \<open>
  When the source has no extension, \<^verbatim>\<open>slice(0, -ext.length)\<close> is \<^verbatim>\<open>slice(0, -0)\<close>,
  the empty string: the base name is lost and the temp file is named by the infix alone.
\<close>

lemma getTempPath_without_extension:
  assumes "extname P src = []"
  shows "getTempPath P src = join P (dirname P src) ''.ffmetadata''"
  using assms js_slice_minus_zero
  by (simp add: getTempPath_def Let_def)

lemma getTempPath_no_extension_example:
  "getTempPath posix ''/music/song'' = ''/music/.ffmetadata''"
  by code_simp

text \<open>
  For POSIX paths the extension is a suffix of the base name, so \<open>stem\<close> is the base
  name without its extension.
\<close>

lemma posix_basename_split:
  "posix_basename p = stem posix p @ posix_extname p"
proof (cases "posix_extname p = []")
  case True
  then show ?thesis by (simp add: stem_def posix_def)
next
  case False
  let ?b = "posix_basename p"
  let ?P = "\<lambda>c. c \<noteq> CHR ''.''"
  from False have dot: "CHR ''.'' \<in> set ?b"
    and ext: "posix_extname p = CHR ''.'' # rev (takeWhile ?P (rev ?b))"
    by (auto simp: posix_extname_def Let_def split: if_splits)
  from dot have "dropWhile ?P (rev ?b) \<noteq> []"
    by (simp add: dropWhile_eq_Nil_conv)
  moreover have "hd (dropWhile ?P (rev ?b)) = CHR ''.''"
    using calculation hd_dropWhile[of ?P "rev ?b"] by simp
  ultimately obtain rest where dw: "dropWhile ?P (rev ?b) = CHR ''.'' # rest"
    by (cases "dropWhile ?P (rev ?b)") auto
  have "rev ?b = takeWhile ?P (rev ?b) @ CHR ''.'' # rest"
    using takeWhile_dropWhile_id[of ?P "rev ?b"] dw by simp
  then have "rev (rev ?b) = rev (takeWhile ?P (rev ?b) @ CHR ''.'' # rest)"
    by (rule arg_cong)
  then have b: "?b = rev rest @ posix_extname p"
    by (simp add: ext)
  have "stem posix p = take (length ?b - length (posix_extname p)) ?b"
    by (simp add: stem_def posix_def)
  also have "\<dots> = rev rest"
    by (subst (1 2) b) simp
  finally show ?thesis using b by simp
qed

subsection \<open>The order of the write arguments\<close>

text \<open>
  C3, as the code has it. For a metadata object with distinct keys, the argument vector
  is: \<^verbatim>\<open>-y\<close>; the primary input followed by the inputs of all attachments; the
  mapping directive \<^verbatim>\<open>-map 0:0\<close> followed by the mapping directives of all
  attachments; \<^verbatim>\<open>-codec copy\<close>; \<^verbatim>\<open>-write_id3v1 1\<close> exactly when id3v1 is set;
  \<^verbatim>\<open>-id3v2_version 3\<close> exactly when id3v2.3 is set; one \<^verbatim>\<open>-metadata key=value\<close>
  directive per key in the object's order; and last the temp path. For a source with
  a non-empty extension the temp path is the source's directory joined with stem,
  infix and extension.
\<close>

theorem write_args_order:
  assumes "distinct (map fst data)"
  shows "getWriteArgs src (getTempPath P src) data options =
     [''-y''] @
     ([''-i'', src] @ concat (map (\<lambda>el. [''-i'', el]) (getAttachments options))) @
     ([''-map'', ''0:0''] @ concat (map (\<lambda>k. [''-map'', string_of_nat k @ '':0''])
                                     [1 ..< Suc (length (getAttachments options))])) @
     [''-codec'', ''copy''] @
     (if truthy (id3v1 options) then [''-write_id3v1'', ''1''] else []) @
     (if truthy (id3v2_3 options) then [''-id3v2_version'', ''3''] else []) @
     concat (map (\<lambda>(k, v). [''-metadata'', escapeini k @ ''='' @ escapeini v]) data) @
     [getTempPath P src]
   \<and> (extname P src \<noteq> [] \<longrightarrow> getTempPath P src = claimed_temp_path P src)"
proof
  show "getWriteArgs src (getTempPath P src) data options =
     [''-y''] @
     ([''-i'', src] @ concat (map (\<lambda>el. [''-i'', el]) (getAttachments options))) @
     ([''-map'', ''0:0''] @ concat (map (\<lambda>k. [''-map'', string_of_nat k @ '':0''])
                                     [1 ..< Suc (length (getAttachments options))])) @
     [''-codec'', ''copy''] @
     (if truthy (id3v1 options) then [''-write_id3v1'', ''1''] else []) @
     (if truthy (id3v2_3 options) then [''-id3v2_version'', ''3''] else []) @
     concat (map (\<lambda>(k, v). [''-metadata'', escapeini k @ ''='' @ escapeini v]) data) @
     [getTempPath P src]"
    unfolding getWriteArgs_closed metadata_directives_distinct[OF assms] ..
  show "extname P src \<noteq> [] \<longrightarrow> getTempPath P src = claimed_temp_path P src"
    by (simp add: getTempPath_with_extension)
qed

text \<open>The theorem at a source with an extension, one attachment, id3v1 and one tag.\<close>

theorem write_args_order_witness:
  "distinct (map fst [(''title'', ''Test'')]) \<and>
   extname posix ''/music/song.mp3'' \<noteq> [] \<and>
   getWriteArgs ''/music/song.mp3'' (getTempPath posix ''/music/song.mp3'') [(''title'', ''Test'')]
     \<lparr>attachments = Some [''cover.jpg''], id3v1 = Some True, id3v2_3 = None,
      dryRun = None, coverPath = None\<rparr> =
     [''-y'', ''-i'', ''/music/song.mp3'', ''-i'', ''cover.jpg'', ''-map'', ''0:0'', ''-map'', ''1:0'',
      ''-codec'', ''copy'', ''-write_id3v1'', ''1'', ''-metadata'', ''title=Test'',
      ''/music/song.ffmetadata.mp3''] \<and>
   getTempPath posix ''/music/song.mp3'' = ''/music/song.ffmetadata.mp3''"
proof -
  let ?src = "''/music/song.mp3''"
  let ?opts = "\<lparr>attachments = Some [''cover.jpg''], id3v1 = Some True, id3v2_3 = None,
      dryRun = None, coverPath = None\<rparr>"
  have d: "distinct (map fst [(''title'', ''Test'')])"
    by simp
  have "extname posix ?src = ''.mp3''"
    by code_simp
  then have e: "extname posix ?src \<noteq> []"
    by simp
  have c: "claimed_temp_path posix ?src = ''/music/song.ffmetadata.mp3''"
    by code_simp
  have n: "string_of_nat (Suc 0) = ''1''"
    by code_simp
  note inst = write_args_order[OF d, of ?src posix ?opts]
  from inst e have t: "getTempPath posix ?src = ''/music/song.ffmetadata.mp3''"
    by (simp add: c)
  from inst have a: "getWriteArgs ?src (getTempPath posix ?src) [(''title'', ''Test'')] ?opts =
     [''-y'', ''-i'', ?src, ''-i'', ''cover.jpg'', ''-map'', ''0:0'', ''-map'', ''1:0'',
      ''-codec'', ''copy'', ''-write_id3v1'', ''1'', ''-metadata'', ''title=Test'',
      getTempPath posix ?src]"
    by (simp add: n getAttachments_def truthy_def escapeini_def)
  have "getWriteArgs ?src (getTempPath posix ?src) [(''title'', ''Test'')] ?opts =
     [''-y'', ''-i'', ?src, ''-i'', ''cover.jpg'', ''-map'', ''0:0'', ''-map'', ''1:0'',
      ''-codec'', ''copy'', ''-write_id3v1'', ''1'', ''-metadata'', ''title=Test'',
      ''/music/song.ffmetadata.mp3'']"
    by (subst a) (simp add: t)
  with d e t show ?thesis
    by blast
qed

text \<open>
  With one attachment the code puts the attachment's input before the primary
  mapping directive: \<^verbatim>\<open>-y -i a.mp3 -i c.jpg -map 0:0 -map 1:0 -codec copy ...\<close>, where
  the order as the specification lists it is
  \<^verbatim>\<open>-y -i a.mp3 -map 0:0 -i c.jpg -map 1:0 -codec copy ...\<close>.
\<close>

lemma getWriteArgs_one_attachment:
  "getWriteArgs ''a.mp3'' ''a.ffmetadata.mp3'' []
     \<lparr>attachments = Some [''c.jpg''], id3v1 = None, id3v2_3 = None, dryRun = None, coverPath = None\<rparr>
   = [''-y'', ''-i'', ''a.mp3'', ''-i'', ''c.jpg'', ''-map'', ''0:0'', ''-map'', ''1:0'',
      ''-codec'', ''copy'', ''a.ffmetadata.mp3'']"
  by code_simp

lemma claimed_write_args_one_attachment:
  "claimed_write_args ''a.mp3'' ''a.ffmetadata.mp3'' []
     \<lparr>attachments = Some [''c.jpg''], id3v1 = None, id3v2_3 = None, dryRun = None, coverPath = None\<rparr>
   = [''-y'', ''-i'', ''a.mp3'', ''-map'', ''0:0'', ''-i'', ''c.jpg'', ''-map'', ''1:0'',
      ''-codec'', ''copy'', ''a.ffmetadata.mp3'']"
  by code_simp

theorem write_args_order_counterexample:
  "getWriteArgs ''a.mp3'' ''a.ffmetadata.mp3'' []
     \<lparr>attachments = Some [''c.jpg''], id3v1 = None, id3v2_3 = None, dryRun = None, coverPath = None\<rparr>
   \<noteq> claimed_write_args ''a.mp3'' ''a.ffmetadata.mp3'' []
     \<lparr>attachments = Some [''c.jpg''], id3v1 = None, id3v2_3 = None, dryRun = None, coverPath = None\<rparr>"
  unfolding getWriteArgs_one_attachment claimed_write_args_one_attachment by simp

subsection \<open>The read arguments\<close>

text \<open>
  C4. When \<^verbatim>\<open>coverPath\<close> is set, the read arguments are \<^verbatim>\<open>-i src coverPath\<close>;
  otherwise they are \<^verbatim>\<open>-i src -f ffmetadata pipe:1\<close>.
\<close>

theorem read_args:
  "(coverPath options = Some cover \<longrightarrow> getReadArgs src options = [''-i'', src, cover]) \<and>
   (coverPath options = None \<longrightarrow>
      getReadArgs src options = [''-i'', src, ''-f'', ''ffmetadata'', ''pipe:1''])"
  by (simp add: getReadArgs_def)

theorem read_args_witness:
  "getReadArgs ''song.mp3'' \<lparr>attachments = None, id3v1 = None, id3v2_3 = None, dryRun = None,
       coverPath = Some ''cover.jpg''\<rparr> = [''-i'', ''song.mp3'', ''cover.jpg''] \<and>
   getReadArgs ''song.mp3'' \<lparr>attachments = None, id3v1 = None, id3v2_3 = None, dryRun = None,
       coverPath = None\<rparr> = [''-i'', ''song.mp3'', ''-f'', ''ffmetadata'', ''pipe:1'']"
  using read_args[of "\<lparr>attachments = None, id3v1 = None, id3v2_3 = None, dryRun = None,
       coverPath = Some ''cover.jpg''\<rparr>" "''cover.jpg''" "''song.mp3''"]
    read_args[of "\<lparr>attachments = None, id3v1 = None, id3v2_3 = None, dryRun = None,
       coverPath = None\<rparr>" "''cover.jpg''" "''song.mp3''"]
  by simp

section \<open>The decoder: properties\<close>

lemma indexOf_notin: "c \<notin> set s \<Longrightarrow> indexOf s c = - 1"
  by (induction s) auto



lemma js_slice_from_nat: "js_slice_from s (int n) = drop n s"
  by (simp add: js_slice_from_def js_slice_def Let_def min_def)

lemma js_slice_from_zero: "js_slice_from s 0 = s"
  using js_slice_from_nat[of s 0] by simp








text \<open>A line without \<^verbatim>\<open>=\<close> when the current property is an own property.\<close>

lemma parseLine_continuation:
  assumes "CHR ''='' \<notin> set l" and "prop_name (key st) \<noteq> ''__proto__''"
  shows "parseLine st l =
     Inr (st\<lparr>stream_data := (stream_data st)
          (prop_name (key st) \<mapsto>
             js_replace (to_str (stream_data st (prop_name (key st))) @ l) backslash newline)\<rparr>)"
  using assms
  by (simp add: parseLine_def unescapeini_def Let_def indexOf_notin js_slice_from_zero
      get_property_def set_property_def concat_operand_def to_str_def split: option.splits)

text \<open>A line without \<^verbatim>\<open>=\<close> when the current key is \<^verbatim>\<open>__proto__\<close>: the call throws.\<close>

lemma parseLine_continuation_proto:
  assumes "CHR ''='' \<notin> set l" and "key st = Some ''__proto__''"
  shows "parseLine st l = Inl TypeError"
  using assms
  by (simp add: parseLine_def unescapeini_def Let_def indexOf_notin prop_name_def
      get_property_def set_property_def)







lemma continuation_before_key:
  assumes "l \<noteq> []" and "isNotComment l" and "CHR ''='' \<notin> set l"
  shows "parseini_state [l] =
     Inr \<lparr>stream_data = [''undefined'' \<mapsto> js_replace (''undefined'' @ l) backslash newline],
          key = None\<rparr>"
proof -
  have p: "prop_name (key ini_init) \<noteq> ''__proto__''"
    by (simp add: ini_init_def prop_name_def)
  have "parseini_state [l] = parseLine ini_init l"
    using assms(1,2) by (simp add: parseini_state_def split: sum.splits)
  also have "\<dots> = Inr (ini_init\<lparr>stream_data := (stream_data ini_init)
          (prop_name (key ini_init) \<mapsto>
             js_replace (to_str (stream_data ini_init (prop_name (key ini_init))) @ l)
               backslash newline)\<rparr>)"
    by (rule parseLine_continuation[OF assms(3) p])
  also have "\<dots> = Inr \<lparr>stream_data =
        [''undefined'' \<mapsto> js_replace (''undefined'' @ l) backslash newline], key = None\<rparr>"
    by (simp add: ini_init_def prop_name_def to_str_def del: js_replace.simps)
  finally show ?thesis .
qed






subsection \<open>Continuation lines\<close>




text \<open>After the key \<^verbatim>\<open>__proto__\<close> a continuation throws instead of being appended.\<close>

lemma continuation_after_proto_throws:
  "decoded_value [''__proto__=x'', ''foo''] ''__proto__'' = Inl TypeError \<and>
   decoded_key [''__proto__=x'', ''foo''] = Inl TypeError"
  by code_simp

text \<open>
  C7. The decoder has no error path for a continuation line that precedes every key:
  no exception is thrown and nothing is emitted. The line is stored under the property
  \<^verbatim>\<open>undefined\<close>, its content appended to the text \<^verbatim>\<open>undefined\<close>, the variable
  \<^verbatim>\<open>key\<close> stays unset, and decoding goes on with the following lines.
\<close>

theorem continuation_before_key_absorbed:
  "decoded_value [''foo''] ''undefined'' = Inr (Some ''undefinedfoo'') \<and>
   decoded_key [''foo''] = Inr None \<and>
   decoded_value ['''', '';comment'', ''foo'', ''title=Test''] ''undefined'' = Inr (Some ''undefinedfoo'') \<and>
   decoded_value ['''', '';comment'', ''foo'', ''title=Test''] ''title'' = Inr (Some ''Test'')"
  by code_simp

subsection \<open>The encoder\<close>

text \<open>
  C8. \<^verbatim>\<open>escapeini\<close> returns its argument: \<^verbatim>\<open>=\<close>, a leading \<^verbatim>\<open>;\<close> and a line
  break pass through unchanged, and a key containing \<^verbatim>\<open>=\<close> yields the
  directive \<^verbatim>\<open>a=b=c\<close>.
\<close>

theorem escapeini_identity:
  "escapeini ''a=b'' = ''a=b'' \<and> escapeini '';c'' = '';c'' \<and>
   escapeini (''x'' @ [newline] @ ''y'') = ''x'' @ [newline] @ ''y'' \<and>
   getWriteArgs ''s.mp3'' ''s.ffmetadata.mp3'' [(''a=b'', ''c'')]
     \<lparr>attachments = None, id3v1 = None, id3v2_3 = None, dryRun = None, coverPath = None\<rparr> =
   [''-y'', ''-i'', ''s.mp3'', ''-map'', ''0:0'', ''-codec'', ''copy'', ''-metadata'', ''a=b=c'',
    ''s.ffmetadata.mp3'']"
  by code_simp

section \<open>The write pipeline and the dry run: properties\<close>

lemma write_fn_running:
  assumes "\<not> truthy (dryRun options)"
  shows "snd (write_fn P src data options W events) =
     foldl (write_event W src (getTempPath P src))
       \<lparr>effects = [Spawn (getWriteArgs src (getTempPath P src) data options)], emitted = []\<rparr> events"
  using assms by (simp add: write_fn_def Let_def)

text \<open>
  The object \<^verbatim>\<open>write\<close> returns is built from the tag properties of the fresh
  stream, which has none: every field is \<^verbatim>\<open>null\<close>, whatever metadata was passed.
\<close>

lemma write_returns_nulls:
  assumes "\<not> truthy (dryRun options)"
  shows "fst (write_fn P src data options W events) =
     ReturnedRecord \<lparr>album = None, artist = None, date = None, disk = None, label = None,
                     title = None, track = None\<rparr>"
  using assms by (simp add: write_fn_def Let_def rt_of_def through_props_def or_null_def)

text \<open>
  No listener of \<^verbatim>\<open>write\<close> emits \<^verbatim>\<open>"metadata"\<close>, the only event on which the
  callback would be handed a record.
\<close>

lemma write_event_no_metadata:
  assumes "\<not> list_ex is_metadata (emitted st)"
  shows "\<not> list_ex is_metadata (emitted (write_event W src dst st ev))"
  using assms
  by (cases ev)
     (auto simp: write_event_def finish_def handleError_def Let_def
           split: option.splits sum.splits)

lemma foldl_write_event_no_metadata:
  assumes "\<not> list_ex is_metadata (emitted st)"
  shows "\<not> list_ex is_metadata (emitted (foldl (write_event W src dst) st events))"
  using assms
proof (induction events arbitrary: st)
  case Nil
  then show ?case by simp
next
  case (Cons ev events)
  show ?case
    unfolding foldl_Cons
    by (rule Cons.IH) (rule write_event_no_metadata[OF Cons.prems])
qed

lemma write_listener_data:
  "CallbackData r \<in> set (write_listener ev) \<Longrightarrow> is_metadata ev"
  by (cases ev) (auto simp: write_listener_def)

lemma write_never_echoes:
  "CallbackData r \<notin> set (write_callbacks (snd (write_fn P src data options W events)))"
proof (cases "truthy (dryRun options)")
  case True
  then show ?thesis by (simp add: write_fn_def Let_def write_callbacks_def)
next
  case False
  have "\<not> list_ex is_metadata (emitted (snd (write_fn P src data options W events)))"
    unfolding write_fn_running[OF False]
    by (rule foldl_write_event_no_metadata) simp
  then show ?thesis
    using write_listener_data by (auto simp: write_callbacks_def list_ex_iff)
qed

subsection \<open>The close listener\<close>

text \<open>
  The close listener on a run that has spawned the process and not crashed: exit
  code 0 and a successful rename commit; exit code 0 and a failed rename, or any other
  close when something was captured on standard error, remove the temp path and emit
  the error; any other close when nothing was captured throws before
  \<^verbatim>\<open>handleError\<close> is reached.
\<close>

lemma write_event_close:
  assumes "\<not> crashed st"
  shows "write_event W src dst st (ProcClose code) =
     (if code = Some 0 then
        (case rename_result W of
           None \<Rightarrow> st\<lparr>effects := effects st @ [Rename dst src],
                      emitted := emitted st @ [EmitEnd]\<rparr>
         | Some err \<Rightarrow> st\<lparr>effects := effects st @ [Rename dst src, Unlink dst],
                          emitted := emitted st @ [EmitError err]\<rparr>)
      else if stderr_body W = [] then st\<lparr>effects := effects st @ [Uncaught TypeError]\<rparr>
      else st\<lparr>effects := effects st @ [Unlink dst],
              emitted := emitted st @ [EmitError (Error (concat (stderr_body W)))]\<rparr>)"
  using assms
  by (simp add: write_event_def finish_def handleError_def stderr_error_def getBody_def Let_def
      split: option.splits)

text \<open>
  Standard output and error events before the close change only what is emitted, and
  never signal the end.
\<close>

lemma write_events_before_close:
  assumes "\<forall>ev \<in> set pre. \<not> is_close ev"
    and "effects st = [Spawn args]" and "\<not> list_ex is_end (emitted st)"
  shows "effects (foldl (write_event W src dst) st pre) = [Spawn args] \<and>
         \<not> list_ex is_end (emitted (foldl (write_event W src dst) st pre))"
  using assms
proof (induction pre arbitrary: st)
  case Nil
  then show ?case by simp
next
  case (Cons ev pre)
  let ?st1 = "write_event W src dst st ev"
  from Cons.prems(1) have ev: "\<not> is_close ev" and pre: "\<forall>ev \<in> set pre. \<not> is_close ev"
    by simp_all
  have e1: "effects ?st1 = [Spawn args]"
    using ev Cons.prems(2) by (cases ev) (simp_all add: write_event_def crashed_def)
  have e2: "\<not> list_ex is_end (emitted ?st1)"
    using ev Cons.prems(3) by (cases ev) (simp_all add: write_event_def)
  show ?case
    unfolding foldl_Cons by (rule Cons.IH[OF pre e1 e2])
qed

text \<open>
  The pipeline as designed: when the process closes with code 0, or closes otherwise
  with something captured on standard error, the run ends in exactly one of the two
  outcomes, whatever standard output and error events came before the close.
\<close>

lemma write_exactly_one_outcome:
  assumes "\<not> truthy (dryRun options)"
    and "\<forall>ev \<in> set pre. \<not> is_close ev"
    and "code = Some 0 \<or> stderr_body W \<noteq> []"
  shows "committed src (getTempPath P src)
           (snd (write_fn P src data options W (pre @ [ProcClose code])))
         \<noteq> rolled_back (getTempPath P src)
           (snd (write_fn P src data options W (pre @ [ProcClose code])))"
proof -
  let ?dst = "getTempPath P src"
  let ?args = "getWriteArgs src ?dst data options"
  let ?st0 = "\<lparr>effects = [Spawn ?args], emitted = []\<rparr>"
  let ?st = "foldl (write_event W src ?dst) ?st0 pre"
  have inv: "effects ?st = [Spawn ?args] \<and> \<not> list_ex is_end (emitted ?st)"
    by (rule write_events_before_close[OF assms(2)]) simp_all
  then have nc: "\<not> crashed ?st"
    by (simp add: crashed_def)
  have run: "snd (write_fn P src data options W (pre @ [ProcClose code])) =
      write_event W src ?dst ?st (ProcClose code)"
    by (simp add: write_fn_running[OF assms(1)])
  show ?thesis
    unfolding run write_event_close[OF nc]
    using inv assms(3)
    by (auto simp: committed_def rolled_back_def split: option.splits)
qed

text \<open>
  C1. Two runs the code can receive that end in neither outcome. A failed spawn: the
  process reports the spawn error and then closes with code -2, nothing having been
  written to standard error. The spawn error reaches the callback, but the close
  listener throws while building its error: the temp path is not removed and nothing
  is renamed. A process that ends with code 1 without writing to standard error: the
  close listener throws likewise, the temp path is not removed and the callback is
  never called.
\<close>

theorem write_not_rolled_back:
  "effects (snd (write_fn posix ''song.mp3'' [(''title'', ''Test'')]
      \<lparr>attachments = None, id3v1 = None, id3v2_3 = None, dryRun = None, coverPath = None\<rparr>
      \<lparr>stderr_body = [], stdout_lines = [], rename_result = None, unlink_result = None\<rparr>
      [ProcError (SystemError ''spawn ffmpeg ENOENT''), ProcClose (Some (- 2))])) =
     [Spawn [''-y'', ''-i'', ''song.mp3'', ''-map'', ''0:0'', ''-codec'', ''copy'',
             ''-metadata'', ''title=Test'', ''song.ffmetadata.mp3''],
      Uncaught TypeError] \<and>
   write_callbacks (snd (write_fn posix ''song.mp3'' [(''title'', ''Test'')]
      \<lparr>attachments = None, id3v1 = None, id3v2_3 = None, dryRun = None, coverPath = None\<rparr>
      \<lparr>stderr_body = [], stdout_lines = [], rename_result = None, unlink_result = None\<rparr>
      [ProcError (SystemError ''spawn ffmpeg ENOENT''), ProcClose (Some (- 2))])) =
     [CallbackError (SystemError ''spawn ffmpeg ENOENT'')] \<and>
   \<not> rolled_back ''song.ffmetadata.mp3'' (snd (write_fn posix ''song.mp3'' [(''title'', ''Test'')]
      \<lparr>attachments = None, id3v1 = None, id3v2_3 = None, dryRun = None, coverPath = None\<rparr>
      \<lparr>stderr_body = [], stdout_lines = [], rename_result = None, unlink_result = None\<rparr>
      [ProcError (SystemError ''spawn ffmpeg ENOENT''), ProcClose (Some (- 2))])) \<and>
   \<not> committed ''song.mp3'' ''song.ffmetadata.mp3'' (snd (write_fn posix ''song.mp3'' [(''title'', ''Test'')]
      \<lparr>attachments = None, id3v1 = None, id3v2_3 = None, dryRun = None, coverPath = None\<rparr>
      \<lparr>stderr_body = [], stdout_lines = [], rename_result = None, unlink_result = None\<rparr>
      [ProcError (SystemError ''spawn ffmpeg ENOENT''), ProcClose (Some (- 2))])) \<and>
   effects (snd (write_fn posix ''song.mp3'' [(''title'', ''Test'')]
      \<lparr>attachments = None, id3v1 = None, id3v2_3 = None, dryRun = None, coverPath = None\<rparr>
      \<lparr>stderr_body = [], stdout_lines = [], rename_result = None, unlink_result = None\<rparr>
      [ProcClose (Some 1)])) =
     [Spawn [''-y'', ''-i'', ''song.mp3'', ''-map'', ''0:0'', ''-codec'', ''copy'',
             ''-metadata'', ''title=Test'', ''song.ffmetadata.mp3''],
      Uncaught TypeError] \<and>
   write_callbacks (snd (write_fn posix ''song.mp3'' [(''title'', ''Test'')]
      \<lparr>attachments = None, id3v1 = None, id3v2_3 = None, dryRun = None, coverPath = None\<rparr>
      \<lparr>stderr_body = [], stdout_lines = [], rename_result = None, unlink_result = None\<rparr>
      [ProcClose (Some 1)])) = []"
  by code_simp

text \<open>
  The failure scenario of the specification, where standard error holds
  \<^verbatim>\<open>Invalid data\<close>: there the temp path is removed, although that removal fails,
  and the error reaches the callback.
\<close>

lemma write_rolled_back_example:
  "effects (snd (write_fn posix ''song.mp3'' [(''title'', ''Test'')]
      \<lparr>attachments = None, id3v1 = None, id3v2_3 = None, dryRun = None, coverPath = None\<rparr>
      \<lparr>stderr_body = [''Invalid data''], stdout_lines = [], rename_result = None,
       unlink_result = Some (SystemError ''ENOENT'')\<rparr>
      [ProcClose (Some 1)])) =
     [Spawn [''-y'', ''-i'', ''song.mp3'', ''-map'', ''0:0'', ''-codec'', ''copy'',
             ''-metadata'', ''title=Test'', ''song.ffmetadata.mp3''],
      Unlink ''song.ffmetadata.mp3''] \<and>
   write_callbacks (snd (write_fn posix ''song.mp3'' [(''title'', ''Test'')]
      \<lparr>attachments = None, id3v1 = None, id3v2_3 = None, dryRun = None, coverPath = None\<rparr>
      \<lparr>stderr_body = [''Invalid data''], stdout_lines = [], rename_result = None,
       unlink_result = Some (SystemError ''ENOENT'')\<rparr>
      [ProcClose (Some 1)])) = [CallbackError (Error ''Invalid data'')]"
  by code_simp

subsection \<open>The dry run and the returned record\<close>

text \<open>
  C9. With \<^verbatim>\<open>dryRun\<close> set, \<^verbatim>\<open>read\<close> and \<^verbatim>\<open>write\<close> return the argument vector
  that \<^verbatim>\<open>getReadArgs\<close> and \<^verbatim>\<open>getWriteArgs\<close> (on the temp path) build, whatever
  the process and the file system would have answered; no process is spawned and no
  file is renamed or removed.
\<close>

theorem dry_run_purity:
  assumes "truthy (dryRun options)"
  shows "read_fn src options W events =
           (ReturnedArgs (getReadArgs src options), \<lparr>effects = [], emitted = []\<rparr>) \<and>
         write_fn P src data options W events =
           (ReturnedArgs (getWriteArgs src (getTempPath P src) data options),
            \<lparr>effects = [], emitted = []\<rparr>)"
  using assms by (simp add: read_fn_def write_fn_def Let_def)

text \<open>A dry run with one attachment, whatever the process would have reported.\<close>

theorem dry_run_purity_witness:
  "truthy (dryRun \<lparr>attachments = Some [''cover.jpg''], id3v1 = None, id3v2_3 = None,
                    dryRun = Some True, coverPath = None\<rparr>) \<and>
   read_fn ''song.mp3''
     \<lparr>attachments = Some [''cover.jpg''], id3v1 = None, id3v2_3 = None, dryRun = Some True,
      coverPath = None\<rparr>
     \<lparr>stderr_body = [], stdout_lines = [''title=Test''], rename_result = None, unlink_result = None\<rparr>
     [ProcClose (Some 0)] =
     (ReturnedArgs [''-i'', ''song.mp3'', ''-f'', ''ffmetadata'', ''pipe:1''],
      \<lparr>effects = [], emitted = []\<rparr>) \<and>
   write_fn posix ''song.mp3'' [(''title'', ''Test'')]
     \<lparr>attachments = Some [''cover.jpg''], id3v1 = None, id3v2_3 = None, dryRun = Some True,
      coverPath = None\<rparr>
     \<lparr>stderr_body = [], stdout_lines = [''title=Test''], rename_result = None, unlink_result = None\<rparr>
     [ProcClose (Some 0)] =
     (ReturnedArgs [''-y'', ''-i'', ''song.mp3'', ''-i'', ''cover.jpg'', ''-map'', ''0:0'',
                    ''-map'', ''1:0'', ''-codec'', ''copy'', ''-metadata'', ''title=Test'',
                    ''song.ffmetadata.mp3''],
      \<lparr>effects = [], emitted = []\<rparr>)"
proof -
  let ?opts = "\<lparr>attachments = Some [''cover.jpg''], id3v1 = None, id3v2_3 = None,
      dryRun = Some True, coverPath = None\<rparr>"
  have h: "truthy (dryRun ?opts)"
    by (simp add: truthy_def)
  have r: "getReadArgs ''song.mp3'' ?opts = [''-i'', ''song.mp3'', ''-f'', ''ffmetadata'', ''pipe:1'']"
    by code_simp
  have w: "getWriteArgs ''song.mp3'' (getTempPath posix ''song.mp3'') [(''title'', ''Test'')] ?opts =
      [''-y'', ''-i'', ''song.mp3'', ''-i'', ''cover.jpg'', ''-map'', ''0:0'',
       ''-map'', ''1:0'', ''-codec'', ''copy'', ''-metadata'', ''title=Test'',
       ''song.ffmetadata.mp3'']"
    by code_simp
  show ?thesis
    using h dry_run_purity[OF h, of "''song.mp3''" _ _ posix "[(''title'', ''Test'')]"]
    by (simp only: r w)
qed

text \<open>Without \<^verbatim>\<open>dryRun\<close> both operations spawn the process with those arguments.\<close>

lemma running_spawns:
  assumes "\<not> truthy (dryRun options)"
  shows "effects (snd (read_fn src options W [])) = [Spawn (getReadArgs src options)]"
    and "effects (snd (write_fn P src data options W [])) =
           [Spawn (getWriteArgs src (getTempPath P src) data options)]"
  using assms by (simp_all add: read_fn_def write_fn_def Let_def)


text \<open>
  C10. A write of \<^verbatim>\<open>{title: "Test"}\<close> to \<^verbatim>\<open>song.mp3\<close> that succeeds (exit code
  0, rename done) returns a record whose fields are all \<^verbatim>\<open>null\<close>, and the callback
  is not called at all: the stream emits \<^verbatim>\<open>"end"\<close>, the callback listens for
  \<^verbatim>\<open>"metadata"\<close>.
\<close>

theorem write_does_not_echo:
  "fst (write_fn posix ''song.mp3'' [(''title'', ''Test'')]
         \<lparr>attachments = None, id3v1 = None, id3v2_3 = None, dryRun = None, coverPath = None\<rparr>
         \<lparr>stderr_body = [], stdout_lines = [], rename_result = None, unlink_result = None\<rparr>
         [ProcClose (Some 0)]) =
     ReturnedRecord \<lparr>album = None, artist = None, date = None, disk = None, label = None,
                     title = None, track = None\<rparr> \<and>
   write_callbacks
     (snd (write_fn posix ''song.mp3'' [(''title'', ''Test'')]
         \<lparr>attachments = None, id3v1 = None, id3v2_3 = None, dryRun = None, coverPath = None\<rparr>
         \<lparr>stderr_body = [], stdout_lines = [], rename_result = None, unlink_result = None\<rparr>
         [ProcClose (Some 0)])) = []"
  by code_simp

end
